theory Spec2Isabelle
  imports Main "HOL-Library.Word" "HOL-Library.AList"
begin

section \<open>The MCP agent client of \<^verbatim>\<open>src/webui/mcp-integration.js\<close>\<close>

text \<open>
  The file defines one class, \<^verbatim>\<open>MCPIntegration\<close>: a session identifier, a connection flag,
  a stream handle and a list of observers, with the asynchronous methods \<^verbatim>\<open>connect\<close>,
  \<^verbatim>\<open>sendMessage\<close> and \<^verbatim>\<open>endSession\<close>, the registration method \<^verbatim>\<open>onMessage\<close> and the
  dispatcher \<^verbatim>\<open>_notifyCallbacks\<close>. The browser platform is not part of the file: the results
  of \<^verbatim>\<open>fetch\<close>, the reads of the response body, the draws of \<^verbatim>\<open>Math.random\<close>, the byte
  decoder \<^verbatim>\<open>TextDecoder\<close> and \<^verbatim>\<open>JSON.parse\<close> are inputs of the model. Everything the code
  does to the outside (requests issued, console lines, observer invocations, handles closed,
  background readers started) is recorded in an explicit \<open>world\<close>.
\<close>

subsection \<open>JavaScript values\<close>

type_synonym byte = "8 word"

text \<open>
  A parsed JSON text. An object is the list of its properties, each name once. Numbers
  are carried through the client untouched.
\<close>

datatype json =
    JNull
  | JBool bool
  | JNumber int
  | JString string
  | JArray "json list"
  | JObject "(string \<times> json) list"

text \<open>A property read gives a value or \<^verbatim>\<open>undefined\<close>, which is \<open>None\<close>.\<close>

type_synonym jsvalue = "json option"

text \<open>
  A thrown value with its \<^verbatim>\<open>message\<close>. \<open>NotAFunction\<close> is the TypeError of a call whose
  callee is not callable; \<open>Thrown\<close> is any other exception.
\<close>

datatype exn = Thrown string | NotAFunction

fun message :: "exn \<Rightarrow> string" where
  "message (Thrown m) = m"
| "message NotAFunction = ''callback is not a function''"

text \<open>What an \<^verbatim>\<open>async\<close> method of the class resolves to.\<close>

datatype jsresult = JSTrue | JSFalse | JSUndefined

fun truthy :: "jsresult \<Rightarrow> bool" where
  "truthy JSTrue = True"
| "truthy JSFalse = False"
| "truthy JSUndefined = False"

subsection \<open>Notifications and observers\<close>

record toolCall =
  tool :: jsvalue
  arguments :: jsvalue

text \<open>
  The object literals handed to \<^verbatim>\<open>_notifyCallbacks\<close>, by their \<^verbatim>\<open>type\<close> tag:
  \<^verbatim>\<open>update{content}\<close>, \<^verbatim>\<open>tool_call{tool, arguments}\<close>, \<^verbatim>\<open>tool_result{result}\<close>,
  \<^verbatim>\<open>final{content, toolCalls}\<close> and \<^verbatim>\<open>error{error}\<close>.
\<close>

datatype notification =
    Update jsvalue
  | ToolCall jsvalue jsvalue
  | ToolResult jsvalue
  | Final jsvalue "toolCall list"
  | ErrorN jsvalue

text \<open>
  An argument of \<^verbatim>\<open>onMessage\<close> is any JavaScript value. A function is known by its
  identity and by what a call of it does with a given notification: it returns, or it
  throws. A function that is called does not call back into the client and does not
  change the object it is given.
\<close>

datatype outcome = Returns | Throws string

datatype callback =
    Function nat "notification \<Rightarrow> outcome"
  | NonFunction jsvalue

fun is_function :: "callback \<Rightarrow> bool" where
  "is_function (Function i f) = True"
| "is_function (NonFunction v) = False"

subsection \<open>The client and the world around it\<close>

record MCPIntegration =
  sessionId :: string
  connected :: bool
  eventSource :: "nat option"
  messageCallbacks :: "callback list"

datatype request = GET string | POST string string | DELETE string

datatype log_entry =
    FailedToConnect
  | ErrorConnecting exn
  | ErrorSendingMessage exn
  | ErrorParsingEvent exn string
  | ErrorProcessingStream exn
  | ErrorEndingSession exn

text \<open>
  The local variables of one \<^verbatim>\<open>sendMessage\<close> call that its \<^verbatim>\<open>processStream\<close> closure
  keeps: the decoder, \<^verbatim>\<open>receivedText\<close> and \<^verbatim>\<open>toolCalls\<close>.
\<close>

record 'd consumer =
  decoder :: 'd
  receivedText :: string
  toolCalls :: "toolCall list"

text \<open>
  \<open>requests\<close>: the fetches issued; \<open>console\<close>: the \<^verbatim>\<open>console.error\<close> lines;
  \<open>invocations\<close>: every call of an observer, with the function's identity and the
  notification as it is at the call (the \<^verbatim>\<open>toolCalls\<close> of a \<^verbatim>\<open>final\<close> notification is
  the array of the exchange itself, which later \<^verbatim>\<open>tool_call\<close> records extend);
  \<open>closedHandles\<close>: the handles on which \<^verbatim>\<open>close()\<close> was
  called; \<open>consumers\<close>: the body readers on which a detached \<^verbatim>\<open>processStream\<close> is waiting
  for its next read, each with the state of its closure.
\<close>

record 'd world =
  requests :: "request list"
  console :: "log_entry list"
  invocations :: "(nat \<times> notification) list"
  closedHandles :: "nat list"
  consumers :: "(nat \<times> 'd consumer) list"

text \<open>
  The platform functions the class calls. \<^verbatim>\<open>decoder.decode(value, {stream: true})\<close>
  consumes its bytes one at a time and keeps its state between calls: \<open>decode_byte\<close> is
  its step on one byte, \<open>decoder_init\<close> the state of \<^verbatim>\<open>new TextDecoder()\<close>.
  \<open>JSON_parse\<close> returns the parsed value or the SyntaxError it throws.
\<close>

record 'd platform =
  decode_byte :: "'d \<Rightarrow> byte \<Rightarrow> 'd \<times> string"
  decoder_init :: 'd
  JSON_parse :: "string \<Rightarrow> exn + json"

record response =
  status :: nat
  body :: "nat option"

definition ok :: "response \<Rightarrow> bool" where
  "ok r = (200 \<le> status r \<and> status r \<le> 299)"

datatype fetch_result = Resolves response | Rejects exn

definition log :: "log_entry \<Rightarrow> 'd world \<Rightarrow> 'd world" where
  "log e w = w\<lparr>console := console w @ [e]\<rparr>"

definition fetch :: "request \<Rightarrow> 'd world \<Rightarrow> 'd world" where
  "fetch r w = w\<lparr>requests := requests w @ [r]\<rparr>"

subsection \<open>Strings\<close>

text \<open>A text is a \<open>string\<close>, with one \<open>char\<close> for each of its code units below 256.\<close>

text \<open>\<^verbatim>\<open>s.replace(pat, rep)\<close> with a string pattern: the first occurrence only.\<close>

fun replace :: "string \<Rightarrow> string \<Rightarrow> string \<Rightarrow> string" where
  "replace pat rep [] = (if pat = [] then rep else [])"
| "replace pat rep (c # cs) =
     (if take (length pat) (c # cs) = pat then rep @ drop (length pat) (c # cs)
      else c # replace pat rep cs)"

text \<open>A number in a template literal: its decimal digits.\<close>

fun decimal :: "nat \<Rightarrow> string" where
  "decimal n =
     (if n < 10 then [char_of (48 + n)]
      else decimal (n div 10) @ [char_of (48 + n mod 10)])"

declare decimal.simps [simp del]

text \<open>
  \<^verbatim>\<open>s.split('\n')\<close>: the pieces between line feeds; never the empty array.
\<close>

fun split_nl :: "string \<Rightarrow> string list" where
  "split_nl [] = [[]]"
| "split_nl (c # cs) =
     (if c = CHR 0x0A then [] # split_nl cs
      else (case split_nl cs of
              [] \<Rightarrow> [[c]]
            | l # ls \<Rightarrow> (c # l) # ls))"

text \<open>\<^verbatim>\<open>lines.pop()\<close>: the last element, removed; \<^verbatim>\<open>undefined\<close> on the empty array.\<close>

definition pop :: "'a list \<Rightarrow> 'a option \<times> 'a list" where
  "pop xs = (if xs = [] then (None, []) else (Some (last xs), butlast xs))"

text \<open>
  \<^verbatim>\<open>s.trim()\<close> removes white space and line terminators at both ends. Of those, a
  \<open>char\<close> can be TAB, LF, VT, FF, CR, SP and NBSP.
\<close>

definition whitespace :: "char \<Rightarrow> bool" where
  "whitespace ch =
     (ch = CHR 0x09 \<or> ch = CHR 0x0A \<or> ch = CHR 0x0B \<or> ch = CHR 0x0C \<or>
      ch = CHR 0x0D \<or> ch = CHR 0x20 \<or> ch = CHR 0xA0)"

definition trim :: "string \<Rightarrow> string" where
  "trim s = rev (dropWhile whitespace (rev (dropWhile whitespace s)))"

subsection \<open>The class\<close>

definition API_BASE :: string where
  "API_BASE = ''/api/agent''"

text \<open>
  \<^verbatim>\<open>_generateSessionId\<close>. The argument is the draw
  \<^verbatim>\<open>Math.random().toString(36).substring(2, 15)\<close>.
\<close>

definition generateSessionId :: "string \<Rightarrow> string" where
  "generateSessionId rnd = ''session_'' @ rnd"

definition constructor :: "string \<Rightarrow> MCPIntegration" where
  "constructor rnd =
     \<lparr>sessionId = generateSessionId rnd, connected = False, eventSource = None,
      messageCallbacks = []\<rparr>"

definition new_world :: "'d world" where
  "new_world =
     \<lparr>requests = [], console = [], invocations = [], closedHandles = [], consumers = []\<rparr>"

text \<open>
  \<^verbatim>\<open>connect\<close>. The argument is what the health check's \<^verbatim>\<open>fetch\<close> settles to, read only
  when the request is made. The bare \<^verbatim>\<open>return\<close> of line 19 resolves to \<^verbatim>\<open>undefined\<close>.
\<close>

definition connect ::
  "fetch_result \<Rightarrow> MCPIntegration \<times> 'd world \<Rightarrow> jsresult \<times> MCPIntegration \<times> 'd world" where
  "connect health s =
     (case s of (c, w) \<Rightarrow>
        if connected c then (JSUndefined, c, w)
        else
          (let w1 = fetch (GET (replace ''/chat'' '''' API_BASE @ ''/health'')) w in
           case health of
             Resolves r \<Rightarrow>
               if \<not> ok r then (JSFalse, c, log FailedToConnect w1)
               else (JSTrue, c\<lparr>connected := True\<rparr>, w1)
           | Rejects e \<Rightarrow> (JSFalse, c, log (ErrorConnecting e) w1)))"

text \<open>\<^verbatim>\<open>onMessage\<close>.\<close>

definition onMessage :: "callback \<Rightarrow> MCPIntegration \<Rightarrow> MCPIntegration" where
  "onMessage callback c =
     (if is_function callback then c\<lparr>messageCallbacks := messageCallbacks c @ [callback]\<rparr>
      else c)"

text \<open>
  \<^verbatim>\<open>_notifyCallbacks\<close>: the \<^verbatim>\<open>for ... of\<close> loop over the observers. An exception of a
  call ends the loop and leaves the method.
\<close>

fun for_callbacks ::
  "callback list \<Rightarrow> notification \<Rightarrow> 'd world \<Rightarrow> exn option \<times> 'd world" where
  "for_callbacks [] data w = (None, w)"
| "for_callbacks (Function i f # cbs) data w =
     (let w1 = w\<lparr>invocations := invocations w @ [(i, data)]\<rparr> in
      case f data of
        Returns \<Rightarrow> for_callbacks cbs data w1
      | Throws m \<Rightarrow> (Some (Thrown m), w1))"
| "for_callbacks (NonFunction v # cbs) data w = (Some NotAFunction, w)"

definition notifyCallbacks ::
  "MCPIntegration \<Rightarrow> notification \<Rightarrow> 'd world \<Rightarrow> exn option \<times> 'd world" where
  "notifyCallbacks c data w = for_callbacks (messageCallbacks c) data w"

text \<open>
  \<^verbatim>\<open>endSession\<close>. The arguments are what the DELETE request settles to and the draw of
  the new session identifier, each read only where the code reaches it.
\<close>

definition endSession ::
  "fetch_result \<Rightarrow> string \<Rightarrow> MCPIntegration \<times> 'd world \<Rightarrow> MCPIntegration \<times> 'd world" where
  "endSession del rnd s =
     (case s of (c, w) \<Rightarrow>
        if \<not> connected c then (c, w)
        else
          (let (c1, w1) =
                 (case eventSource c of
                    Some h \<Rightarrow> (c\<lparr>eventSource := None\<rparr>, w\<lparr>closedHandles := closedHandles w @ [h]\<rparr>)
                  | None \<Rightarrow> (c, w));
               w2 = fetch (DELETE (API_BASE @ ''/chat/'' @ sessionId c1)) w1
           in case del of
                Resolves r \<Rightarrow>
                  (c1\<lparr>sessionId := generateSessionId rnd, connected := False\<rparr>, w2)
              | Rejects e \<Rightarrow> (c1, log (ErrorEndingSession e) w2)))"

subsection \<open>The stream reader of \<^verbatim>\<open>sendMessage\<close>\<close>

text \<open>A property of a parsed value that is not \<^verbatim>\<open>null\<close>.\<close>

fun field :: "json \<Rightarrow> string \<Rightarrow> jsvalue" where
  "field (JObject fs) k = map_of fs k"
| "field v k = None"

text \<open>
  The \<^verbatim>\<open>switch (event.type)\<close> of lines 91 to 137. Reading \<^verbatim>\<open>event.type\<close> of \<^verbatim>\<open>null\<close>
  throws; a tag that is no case of the switch does nothing.
\<close>

definition dispatch ::
  "MCPIntegration \<Rightarrow> json \<Rightarrow> toolCall list \<times> 'd world \<Rightarrow> exn option \<times> toolCall list \<times> 'd world"
  where
  "dispatch c event s =
     (case s of (tcs, w) \<Rightarrow>
        if event = JNull
        then (Some (Thrown ''Cannot read properties of null (reading 'type')''), tcs, w)
        else
          (let ty = field event ''type'' in
           if ty = Some (JString ''content'') then
             (case notifyCallbacks c (Update (field event ''content'')) w of
                (r, w1) \<Rightarrow> (r, tcs, w1))
           else if ty = Some (JString ''tool_call'') then
             (let tcs1 = tcs @ [\<lparr>tool = field event ''tool'', arguments = field event ''arguments''\<rparr>]
              in case notifyCallbacks c
                        (ToolCall (field event ''tool'') (field event ''arguments'')) w of
                   (r, w1) \<Rightarrow> (r, tcs1, w1))
           else if ty = Some (JString ''tool_result'') then
             (case notifyCallbacks c (ToolResult (field event ''result'')) w of
                (r, w1) \<Rightarrow> (r, tcs, w1))
           else if ty = Some (JString ''final'') then
             (case notifyCallbacks c (Final (field event ''content'') tcs) w of
                (r, w1) \<Rightarrow> (r, tcs, w1))
           else if ty = Some (JString ''error'') then
             (case notifyCallbacks c (ErrorN (field event ''content'')) w of
                (r, w1) \<Rightarrow> (r, tcs, w1))
           else (None, tcs, w)))"

text \<open>
  The body of \<^verbatim>\<open>for (const line of lines)\<close>, lines 85 to 140: a blank line is passed
  over; whatever is thrown by \<^verbatim>\<open>JSON.parse\<close> or inside the switch is caught and logged
  with the line.
\<close>

definition process_line ::
  "'d platform \<Rightarrow> MCPIntegration \<Rightarrow> string \<Rightarrow> toolCall list \<times> 'd world \<Rightarrow> toolCall list \<times> 'd world"
  where
  "process_line P c line s =
     (case s of (tcs, w) \<Rightarrow>
        if trim line = [] then (tcs, w)
        else
          (case JSON_parse P line of
             Inl e \<Rightarrow> (tcs, log (ErrorParsingEvent e line) w)
           | Inr event \<Rightarrow>
               (case dispatch c event (tcs, w) of
                  (None, tcs1, w1) \<Rightarrow> (tcs1, w1)
                | (Some e, tcs1, w1) \<Rightarrow> (tcs1, log (ErrorParsingEvent e line) w1))))"

fun process_lines ::
  "'d platform \<Rightarrow> MCPIntegration \<Rightarrow> string list \<Rightarrow> toolCall list \<times> 'd world \<Rightarrow> toolCall list \<times> 'd world"
  where
  "process_lines P c [] s = s"
| "process_lines P c (line # lines) s = process_lines P c lines (process_line P c line s)"

text \<open>\<^verbatim>\<open>decoder.decode(value, {stream: true})\<close>: the new decoder state and the text.\<close>

fun decode :: "('d \<Rightarrow> byte \<Rightarrow> 'd \<times> string) \<Rightarrow> 'd \<Rightarrow> byte list \<Rightarrow> 'd \<times> string" where
  "decode h d [] = (d, [])"
| "decode h d (b # bs) =
     (case h d b of (d1, t1) \<Rightarrow> case decode h d1 bs of (d2, t2) \<Rightarrow> (d2, t1 @ t2))"

text \<open>One turn of the \<^verbatim>\<open>while\<close> loop on a chunk that was read, lines 77 to 141.\<close>

definition process_chunk ::
  "'d platform \<Rightarrow> MCPIntegration \<Rightarrow> byte list \<Rightarrow> 'd consumer \<times> 'd world \<Rightarrow> 'd consumer \<times> 'd world"
  where
  "process_chunk P c val s =
     (case s of (k, w) \<Rightarrow>
        (case decode (decode_byte P) (decoder k) val of (d1, text) \<Rightarrow>
           (case pop (split_nl (receivedText k @ text)) of (popped, lines) \<Rightarrow>
              (let rest = (case popped of None \<Rightarrow> [] | Some l \<Rightarrow> if l = [] then [] else l)
               in case process_lines P c lines (toolCalls k, w) of (tcs1, w1) \<Rightarrow>
                    (k\<lparr>decoder := d1, receivedText := rest, toolCalls := tcs1\<rparr>, w1)))))"

text \<open>
  What \<^verbatim>\<open>await reader.read()\<close> settles to: a chunk, the end of the body, or a rejection.
\<close>

datatype read = Chunk "byte list" | Done | ReadFails exn

text \<open>
  \<open>Waiting\<close>: the task is suspended in \<^verbatim>\<open>reader.read()\<close>. \<open>Settled None\<close>: its promise is
  fulfilled. \<open>Settled (Some e)\<close>: its promise is rejected with \<open>e\<close>, which nothing handles.
\<close>

datatype task = Waiting | Settled "exn option"

text \<open>
  \<^verbatim>\<open>processStream\<close> on the reads that have settled so far. The text left in
  \<^verbatim>\<open>receivedText\<close> at the end of the body is not processed.
\<close>

fun processStream ::
  "'d platform \<Rightarrow> MCPIntegration \<Rightarrow> read list \<Rightarrow> 'd consumer \<times> 'd world \<Rightarrow>
   task \<times> 'd consumer \<times> 'd world" where
  "processStream P c [] s = (Waiting, s)"
| "processStream P c (Chunk val # rs) s = processStream P c rs (process_chunk P c val s)"
| "processStream P c (Done # rs) s = (Settled None, s)"
| "processStream P c (ReadFails e # rs) s =
     (case s of (k, w) \<Rightarrow>
        (case notifyCallbacks c (ErrorN (Some (JString (''Stream error: '' @ message e))))
                (log (ErrorProcessingStream e) w) of
           (r, w1) \<Rightarrow> (Settled r, k, w1)))"

subsection \<open>\<^verbatim>\<open>sendMessage\<close>\<close>

definition new_consumer :: "'d platform \<Rightarrow> 'd consumer" where
  "new_consumer P = \<lparr>decoder = decoder_init P, receivedText = [], toolCalls = []\<rparr>"

text \<open>
  The \<^verbatim>\<open>try\<close> block, lines 45 to 155: the exception that leaves it, if any, and the
  world it leaves behind. \<^verbatim>\<open>processStream()\<close> runs up to its first \<^verbatim>\<open>reader.read()\<close> and
  is not awaited: the reader joins the waiting consumers.
\<close>

definition sendMessage_try ::
  "'d platform \<Rightarrow> fetch_result \<Rightarrow> string \<Rightarrow> MCPIntegration \<times> 'd world \<Rightarrow> exn option \<times> 'd world"
  where
  "sendMessage_try P chat msg s =
     (case s of (c, w) \<Rightarrow>
        (let w1 = (case eventSource c of
                     Some h \<Rightarrow> w\<lparr>closedHandles := closedHandles w @ [h]\<rparr>
                   | None \<Rightarrow> w);
             w2 = fetch (POST (API_BASE @ ''/chat/'' @ sessionId c) msg) w1
         in case chat of
              Rejects e \<Rightarrow> (Some e, w2)
            | Resolves r \<Rightarrow>
                if \<not> ok r then (Some (Thrown (''API error: '' @ decimal (status r))), w2)
                else
                  (case body r of
                     None \<Rightarrow>
                       (Some (Thrown ''Cannot read properties of null (reading 'getReader')''), w2)
                   | Some reader \<Rightarrow>
                       (None, w2\<lparr>consumers := consumers w2 @ [(reader, new_consumer P)]\<rparr>))))"

text \<open>
  The \<^verbatim>\<open>try\<close> block with its \<^verbatim>\<open>catch\<close>, lines 44 to 163. \<open>Inl e\<close>: the promise of
  \<^verbatim>\<open>sendMessage\<close> is rejected, which happens when an observer throws inside the
  \<^verbatim>\<open>catch\<close> block.
\<close>

definition sendMessage_exchange ::
  "'d platform \<Rightarrow> fetch_result \<Rightarrow> string \<Rightarrow> MCPIntegration \<times> 'd world \<Rightarrow>
   (exn + jsresult) \<times> MCPIntegration \<times> 'd world" where
  "sendMessage_exchange P chat msg s =
     (case s of (c, w) \<Rightarrow>
        (case sendMessage_try P chat msg (c, w) of
           (None, w1) \<Rightarrow> (Inr JSTrue, c, w1)
         | (Some e, w1) \<Rightarrow>
             (case notifyCallbacks c
                     (ErrorN (Some (JString (''Failed to send message: '' @ message e))))
                     (log (ErrorSendingMessage e) w1) of
                (None, w2) \<Rightarrow> (Inr JSFalse, c, w2)
              | (Some e2, w2) \<Rightarrow> (Inl e2, c, w2))))"

text \<open>
  \<^verbatim>\<open>sendMessage\<close>. The arguments are what the health check and the chat request settle
  to, each read only when the request is made. The bare \<^verbatim>\<open>return\<close> of line 41 resolves
  to \<^verbatim>\<open>undefined\<close>.
\<close>

definition sendMessage ::
  "'d platform \<Rightarrow> fetch_result \<Rightarrow> fetch_result \<Rightarrow> string \<Rightarrow> MCPIntegration \<times> 'd world \<Rightarrow>
   (exn + jsresult) \<times> MCPIntegration \<times> 'd world" where
  "sendMessage P health chat msg s =
     (if \<not> connected (fst s) then
        (case connect health s of
           (isConnected, c, w) \<Rightarrow>
             if \<not> truthy isConnected then (Inr JSUndefined, c, w)
             else sendMessage_exchange P chat msg (c, w))
      else sendMessage_exchange P chat msg s)"

subsection \<open>A host driving the client\<close>

text \<open>
  The calls a host can make on the one instance the file creates, and the reads of the
  open response bodies settling in between. The requests of a call have settled when
  the next call is made. A read that settles resumes the \<^verbatim>\<open>processStream\<close> task
  waiting on that reader, which runs to its next \<^verbatim>\<open>reader.read()\<close> or to its end.
\<close>

datatype call =
    Connect fetch_result
  | SendMessage fetch_result fetch_result string
  | OnMessage callback
  | EndSession fetch_result string
  | ReadSettles nat read

definition resume ::
  "'d platform \<Rightarrow> nat \<Rightarrow> read \<Rightarrow> MCPIntegration \<times> 'd world \<Rightarrow> MCPIntegration \<times> 'd world" where
  "resume P reader rd s =
     (case s of (c, w) \<Rightarrow>
        (case map_of (consumers w) reader of
           None \<Rightarrow> (c, w)
         | Some k \<Rightarrow>
             (case processStream P c [rd] (k, w) of
                (Waiting, k1, w1) \<Rightarrow>
                  (c, w1\<lparr>consumers := AList.update reader k1 (consumers w1)\<rparr>)
              | (Settled r, k1, w1) \<Rightarrow>
                  (c, w1\<lparr>consumers := AList.delete reader (consumers w1)\<rparr>))))"

fun step :: "'d platform \<Rightarrow> call \<Rightarrow> MCPIntegration \<times> 'd world \<Rightarrow> MCPIntegration \<times> 'd world" where
  "step P (Connect health) s = snd (connect health s)"
| "step P (SendMessage health chat msg) s = snd (sendMessage P health chat msg s)"
| "step P (OnMessage callback) s = (onMessage callback (fst s), snd s)"
| "step P (EndSession del rnd) s = endSession del rnd s"
| "step P (ReadSettles reader rd) s = resume P reader rd s"

fun run :: "'d platform \<Rightarrow> call list \<Rightarrow> MCPIntegration \<times> 'd world \<Rightarrow> MCPIntegration \<times> 'd world" where
  "run P [] s = s"
| "run P (a # as) s = run P as (step P a s)"

subsection \<open>Notions used in the statements\<close>

text \<open>The health check fails: the request is rejected or its response is not OK.\<close>

definition health_fails :: "fetch_result \<Rightarrow> bool" where
  "health_fails health = (case health of Rejects e \<Rightarrow> True | Resolves r \<Rightarrow> \<not> ok r)"

text \<open>A call of the observer with this notification returns.\<close>

definition returns :: "notification \<Rightarrow> callback \<Rightarrow> bool" where
  "returns n cb = (case cb of Function i f \<Rightarrow> f n = Returns | NonFunction v \<Rightarrow> False)"

definition observers_ok :: "MCPIntegration \<Rightarrow> bool" where
  "observers_ok c = list_all is_function (messageCallbacks c)"

text \<open>
  The event records of a list of lines: the values of the lines that are not blank and
  that \<^verbatim>\<open>JSON.parse\<close> accepts.
\<close>

definition records :: "'d platform \<Rightarrow> string list \<Rightarrow> json list" where
  "records P ls = [ev. l \<leftarrow> ls, trim l \<noteq> [], Inr ev \<leftarrow> [JSON_parse P l]]"

definition has_type :: "string \<Rightarrow> json \<Rightarrow> bool" where
  "has_type t ev = (field ev ''type'' = Some (JString t))"

text \<open>The \<^verbatim>\<open>tool_call\<close> records among them, as \<^verbatim>\<open>{tool, arguments}\<close> pairs, in order.\<close>

definition tool_call_records :: "'d platform \<Rightarrow> string list \<Rightarrow> toolCall list" where
  "tool_call_records P ls =
     [\<lparr>tool = field ev ''tool'', arguments = field ev ''arguments''\<rparr>.
        ev \<leftarrow> records P ls, has_type ''tool_call'' ev]"

text \<open>A state of the line loop with the console left out.\<close>

definition silent :: "toolCall list \<times> 'd world \<Rightarrow> toolCall list \<times> 'd world" where
  "silent s = (fst s, (snd s)\<lparr>console := []\<rparr>)"

subsection \<open>Sample inputs\<close>

text \<open>
  A platform for concrete runs: a decoder that gives one character for each byte, and a
  parser that knows the three records of the scenario of the specification.
\<close>

definition ascii :: "unit \<Rightarrow> byte \<Rightarrow> unit \<times> string" where
  "ascii d b = (d, [char_of (unat b)])"

definition bytes :: "string \<Rightarrow> byte list" where
  "bytes s = map of_char s"

definition content_line :: string where
  \<open>content_line = ''{"type":"content","content":"Hi"}''\<close>

definition tool_call_line :: string where
  \<open>tool_call_line = ''{"type":"tool_call","tool":"search","arguments":{"q":"x"}}''\<close>

definition final_line :: string where
  \<open>final_line = ''{"type":"final","content":"Hi there"}''\<close>

definition broken_line :: string where
  \<open>broken_line = ''{"type":"content",''\<close>

text \<open>
  The content line and the start of the final line, cut into two chunks in the middle of
  a record.
\<close>

definition first_chunk :: string where
  \<open>first_chunk = ''{"type":"con''\<close>

definition second_chunk :: string where
  \<open>second_chunk = ''tent","content":"Hi"}'' @ [CHR 0x0A] @ ''{"type":"fin''\<close>

definition partial_line :: string where
  \<open>partial_line = ''{"type":"fin''\<close>

definition sample_parse :: "string \<Rightarrow> exn + json" where
  "sample_parse s =
     (if s = content_line then
        Inr (JObject [(''type'', JString ''content''), (''content'', JString ''Hi'')])
      else if s = tool_call_line then
        Inr (JObject [(''type'', JString ''tool_call''), (''tool'', JString ''search''),
                      (''arguments'', JObject [(''q'', JString ''x'')])])
      else if s = final_line then
        Inr (JObject [(''type'', JString ''final''), (''content'', JString ''Hi there'')])
      else Inl (Thrown ''Unexpected end of JSON input''))"

definition sample_platform :: "unit platform" where
  "sample_platform = \<lparr>decode_byte = ascii, decoder_init = (), JSON_parse = sample_parse\<rparr>"

definition quiet :: "notification \<Rightarrow> outcome" where
  "quiet n = Returns"

definition faulty :: "notification \<Rightarrow> outcome" where
  "faulty n = Throws ''observer failed''"

definition ok200 :: "nat option \<Rightarrow> fetch_result" where
  "ok200 b = Resolves \<lparr>status = 200, body = b\<rparr>"

definition http500 :: fetch_result where
  "http500 = Resolves \<lparr>status = 500, body = None\<rparr>"

definition observed_client :: MCPIntegration where
  "observed_client = onMessage (Function 0 quiet) (constructor ''a1b2'')"

definition search_call :: toolCall where
  "search_call = \<lparr>tool = Some (JString ''search''), arguments = Some (JObject [(''q'', JString ''x'')])\<rparr>"

section \<open>Frame and evaluation lemmas\<close>

lemma health_url: "replace ''/chat'' '''' API_BASE @ ''/health'' = ''/api/agent/health''"
  by (simp add: API_BASE_def)

lemma for_callbacks_frame:
  "for_callbacks cbs n w = (r, w1) \<Longrightarrow>
     requests w1 = requests w \<and> console w1 = console w \<and>
     closedHandles w1 = closedHandles w \<and> consumers w1 = consumers w"
  by (induction cbs n w rule: for_callbacks.induct)
     (auto simp: Let_def split: outcome.splits)

lemma notifyCallbacks_frame:
  "notifyCallbacks c n w = (r, w1) \<Longrightarrow>
     requests w1 = requests w \<and> console w1 = console w \<and>
     closedHandles w1 = closedHandles w \<and> consumers w1 = consumers w"
  unfolding notifyCallbacks_def by (rule for_callbacks_frame)

lemma connect_disconnected:
  "\<not> connected c \<Longrightarrow> connect health (c, w) =
     (if health_fails health
      then (JSFalse, c,
            log (case health of Rejects e \<Rightarrow> ErrorConnecting e | Resolves r \<Rightarrow> FailedToConnect)
                (fetch (GET ''/api/agent/health'') w))
      else (JSTrue, c\<lparr>connected := True\<rparr>, fetch (GET ''/api/agent/health'') w))"
  by (cases health) (simp_all add: connect_def health_fails_def health_url)

lemma requests_sendMessage_try:
  "sendMessage_try P chat msg (c, w) = (r, w1) \<Longrightarrow>
     requests w1 = requests w @ [POST (''/api/agent/chat/'' @ sessionId c) msg]"
  by (cases chat)
     (auto simp add: sendMessage_try_def API_BASE_def fetch_def Let_def
        split: option.splits if_splits)

lemma requests_sendMessage_exchange:
  "requests (snd (snd (sendMessage_exchange P chat msg (c, w)))) =
     requests w @ [POST (''/api/agent/chat/'' @ sessionId c) msg]"
  by (auto simp add: sendMessage_exchange_def log_def
        split: option.splits prod.splits
        dest!: requests_sendMessage_try notifyCallbacks_frame)

section \<open>The claims\<close>

subsection \<open>C2: \<^verbatim>\<open>connect\<close> on a connected client\<close>

text \<open>
  C2 says that \<^verbatim>\<open>connect()\<close> on a client that is already connected makes no liveness
  check and returns success, the boolean \<^verbatim>\<open>true\<close>. The code makes no request and changes
  nothing, but line 19 is a bare \<^verbatim>\<open>return\<close>: the call resolves to \<^verbatim>\<open>undefined\<close>, which is
  not truthy, where the success path of line 30 returns \<^verbatim>\<open>true\<close>.
\<close>

theorem connect_when_connected_resolves_undefined:
  "connect health (c\<lparr>connected := True\<rparr>, w) = (JSUndefined, c\<lparr>connected := True\<rparr>, w)
   \<and> \<not> truthy (fst (connect health (c\<lparr>connected := True\<rparr>, w)))"
  by (simp add: connect_def)

subsection \<open>C7: \<^verbatim>\<open>sendMessage\<close> on a disconnected client\<close>

text \<open>
  C7: a \<^verbatim>\<open>sendMessage\<close> call made while disconnected makes exactly one health check, before
  anything else; the chat request follows only when the check succeeds. When the check
  fails, the call resolves to \<^verbatim>\<open>undefined\<close>, a falsy value, no observer is invoked, no chat
  request is issued, and the client is as before: the health request and its console line
  are all that happened.
\<close>

theorem sendMessage_while_disconnected:
  assumes "\<not> connected c"
  shows "requests (snd (snd (sendMessage P health chat msg (c, w)))) =
           requests w @ GET ''/api/agent/health'' #
             (if health_fails health then []
              else [POST (''/api/agent/chat/'' @ sessionId c) msg])
       \<and> (health_fails health \<longrightarrow>
            sendMessage P health chat msg (c, w) =
              (Inr JSUndefined, c,
               log (case health of Rejects e \<Rightarrow> ErrorConnecting e | Resolves r \<Rightarrow> FailedToConnect)
                   (fetch (GET ''/api/agent/health'') w))
            \<and> \<not> truthy JSUndefined
            \<and> invocations (snd (snd (sendMessage P health chat msg (c, w)))) = invocations w)"
  using assms
  by (simp add: sendMessage_def connect_disconnected requests_sendMessage_exchange fetch_def
      log_def)

theorem sendMessage_while_disconnected_witness:
  "\<not> connected (constructor ''a1b2'') \<and> health_fails http500
   \<and> sendMessage sample_platform http500 (ok200 (Some 1)) ''hello''
        (constructor ''a1b2'', new_world) =
      (Inr JSUndefined, constructor ''a1b2'',
       \<lparr>requests = [GET ''/api/agent/health''], console = [FailedToConnect], invocations = [],
        closedHandles = [], consumers = []\<rparr>)"
  using sendMessage_while_disconnected
    [of "constructor ''a1b2''" sample_platform http500 "ok200 (Some 1)" "''hello''" new_world]
  by (simp add: constructor_def health_fails_def http500_def ok_def new_world_def log_def
      fetch_def)

subsection \<open>C3: \<^verbatim>\<open>endSession\<close>\<close>

text \<open>
  C3 as stated fails twice. When the DELETE request is rejected, the \<^verbatim>\<open>catch\<close> block only
  logs: the session identifier and the connection flag stay as they were. And the new
  identifier is a fresh draw of \<^verbatim>\<open>Math.random\<close>, which may repeat the previous one.
\<close>

theorem endSession_counterexample:
  "sessionId (fst (endSession (Rejects (Thrown ''Failed to fetch'')) ''k3v9''
       ((constructor ''a1b2'')\<lparr>connected := True\<rparr>, new_world :: unit world))) = ''session_a1b2''
   \<and> connected (fst (endSession (Rejects (Thrown ''Failed to fetch'')) ''k3v9''
       ((constructor ''a1b2'')\<lparr>connected := True\<rparr>, new_world :: unit world)))
   \<and> sessionId (fst (endSession (ok200 None) ''a1b2''
       ((constructor ''a1b2'')\<lparr>connected := True\<rparr>, new_world :: unit world))) = ''session_a1b2''"
  by (simp add: endSession_def constructor_def generateSessionId_def new_world_def fetch_def
      log_def ok200_def)

text \<open>
  C3, amended: on a connected client whose identifier was generated from the draw \<open>old\<close>,
  an \<^verbatim>\<open>endSession\<close> whose DELETE request gets a response, of whatever status, leaves the
  client disconnected with the identifier generated from the new draw, which differs from
  the previous identifier exactly when the draws differ, and logs nothing. When the
  request is rejected, the rejection is logged and the identifier and the connection flag
  are unchanged.
\<close>

theorem endSession_on_connected_client:
  assumes "connected c" and "sessionId c = generateSessionId old"
  shows "fst (endSession (Resolves r) rnd (c, w)) =
           c\<lparr>sessionId := generateSessionId rnd, connected := False, eventSource := None\<rparr>
       \<and> (sessionId (fst (endSession (Resolves r) rnd (c, w))) \<noteq> sessionId c) = (rnd \<noteq> old)
       \<and> console (snd (endSession (Resolves r) rnd (c, w))) = console w
       \<and> fst (endSession (Rejects e) rnd (c, w)) = c\<lparr>eventSource := None\<rparr>
       \<and> console (snd (endSession (Rejects e) rnd (c, w))) = console w @ [ErrorEndingSession e]"
  using assms
  by (auto simp add: endSession_def generateSessionId_def fetch_def log_def Let_def
      split: option.splits)

theorem endSession_on_connected_client_witness:
  "connected ((constructor ''a1b2'')\<lparr>connected := True\<rparr>)
   \<and> sessionId ((constructor ''a1b2'')\<lparr>connected := True\<rparr>) = generateSessionId ''a1b2''
   \<and> fst (endSession (Resolves \<lparr>status = 200, body = None\<rparr>) ''k3v9''
        ((constructor ''a1b2'')\<lparr>connected := True\<rparr>, new_world :: unit world)) =
      \<lparr>sessionId = ''session_k3v9'', connected = False, eventSource = None,
       messageCallbacks = []\<rparr>"
  using endSession_on_connected_client
    [of "(constructor ''a1b2'')\<lparr>connected := True\<rparr>" "''a1b2''"
        "\<lparr>status = 200, body = None\<rparr>" "''k3v9''" "new_world :: unit world"]
  by (simp add: constructor_def generateSessionId_def)

subsection \<open>C8: dispatch to the observers\<close>

lemma messageCallbacks_registered:
  "messageCallbacks (foldl (\<lambda>c a. onMessage a c) c args) =
     messageCallbacks c @ filter is_function args"
  by (induction args arbitrary: c) (simp_all add: onMessage_def)

lemma for_callbacks_invocations:
  "list_all is_function cbs \<Longrightarrow>
   invocations (snd (for_callbacks cbs n w)) =
     invocations w @
     [(i, n). Function i f \<leftarrow> takeWhile (returns n) cbs @ take 1 (dropWhile (returns n) cbs)]"
  by (induction cbs n w rule: for_callbacks.induct)
     (auto simp: Let_def returns_def split: outcome.splits)

lemma functions_of_filter:
  "[(i, n). Function i f \<leftarrow> filter is_function args] = [(i, n). Function i f \<leftarrow> args]"
  by (induction args) (auto split: callback.splits)

text \<open>
  C8 as stated fails when an observer throws: the exception leaves the
  \<^verbatim>\<open>for ... of\<close> loop of \<^verbatim>\<open>_notifyCallbacks\<close>, and the observers registered after it
  are not invoked for that notification.
\<close>

theorem notify_all_observers_counterexample:
  "invocations (snd (notifyCallbacks
       (onMessage (Function 1 quiet) (onMessage (Function 0 faulty) (constructor ''a1b2'')))
       (Update None) (new_world :: unit world))) = [(0, Update None)]"
  by (simp add: notifyCallbacks_def onMessage_def constructor_def new_world_def faulty_def
      quiet_def)

text \<open>
  C8, amended: for every notification and every sequence of \<^verbatim>\<open>onMessage\<close> registrations on
  a new client, the registered observers are invoked in the order of their registration,
  up to and including the first one that throws; when none of them throws, all of them
  are invoked, in the order of their registration.
\<close>

theorem notify_in_registration_order:
  "invocations (snd (notifyCallbacks (foldl (\<lambda>c a. onMessage a c) (constructor rnd) args) n w)) =
     invocations w @
     [(i, n). Function i f \<leftarrow>
        takeWhile (returns n) (filter is_function args) @
        take 1 (dropWhile (returns n) (filter is_function args))]
   \<and> ((\<forall>cb \<in> set (filter is_function args). returns n cb) \<longrightarrow>
        invocations (snd (notifyCallbacks (foldl (\<lambda>c a. onMessage a c) (constructor rnd) args) n w)) =
          invocations w @ [(i, n). Function i f \<leftarrow> args])"
proof -
  let ?c = "foldl (\<lambda>c a. onMessage a c) (constructor rnd) args"
  let ?fs = "filter is_function args"
  have cbs: "messageCallbacks ?c = ?fs"
    by (simp add: messageCallbacks_registered constructor_def)
  have all: "list_all is_function ?fs"
    by (simp add: list_all_iff)
  have prefix: "invocations (snd (notifyCallbacks ?c n w)) =
     invocations w @
     [(i, n). Function i f \<leftarrow> takeWhile (returns n) ?fs @ take 1 (dropWhile (returns n) ?fs)]"
    unfolding notifyCallbacks_def cbs by (rule for_callbacks_invocations [OF all])
  have whole: "invocations (snd (notifyCallbacks ?c n w)) =
          invocations w @ [(i, n). Function i f \<leftarrow> args]"
    if "\<forall>cb \<in> set ?fs. returns n cb"
  proof -
    from that have "takeWhile (returns n) ?fs = ?fs" and "dropWhile (returns n) ?fs = []"
      by (simp_all add: takeWhile_eq_all_conv)
    with prefix functions_of_filter [of n args] show ?thesis by simp
  qed
  from prefix whole show ?thesis by blast
qed

theorem notify_in_registration_order_witness:
  "returns (Update None) (Function 0 quiet) \<and> returns (Update None) (Function 1 quiet)
   \<and> invocations (snd (notifyCallbacks
        (foldl (\<lambda>c a. onMessage a c) (constructor ''a1b2'')
           [Function 0 quiet, NonFunction None, Function 1 quiet])
        (Update None) (new_world :: unit world))) =
      [(0, Update None), (1, Update None)]"
  using notify_in_registration_order
    [where args = "[Function 0 quiet, NonFunction None, Function 1 quiet]"
       and n = "Update None" and rnd = "''a1b2''" and w = "new_world :: unit world"]
  by (simp add: returns_def quiet_def new_world_def)

subsection \<open>C10: only functions are registered\<close>

lemma connect_client:
  "fst (snd (connect health (c, w))) = c \<or>
   fst (snd (connect health (c, w))) = c\<lparr>connected := True\<rparr>"
  by (cases health) (auto simp: connect_def Let_def)

lemma sendMessage_exchange_client: "fst (snd (sendMessage_exchange P chat msg (c, w))) = c"
  by (auto simp: sendMessage_exchange_def split: prod.splits option.splits)

lemma sendMessage_client:
  "fst (snd (sendMessage P health chat msg (c, w))) = c \<or>
   fst (snd (sendMessage P health chat msg (c, w))) = c\<lparr>connected := True\<rparr>"
  using connect_client [of health c w]
  by (cases "connect health (c, w)")
     (auto simp: sendMessage_def sendMessage_exchange_client split: prod.splits)

lemma endSession_client:
  "messageCallbacks (fst (endSession del rnd (c, w))) = messageCallbacks c"
  by (cases del) (auto simp: endSession_def Let_def split: option.splits)

lemma resume_client: "fst (resume P reader rd (c, w)) = c"
  by (auto simp: resume_def split: option.splits prod.splits task.splits)

lemma step_observers_ok: "observers_ok (fst s) \<Longrightarrow> observers_ok (fst (step P a s))"
proof (cases s)
  case (Pair c w)
  assume ok: "observers_ok (fst s)"
  show ?thesis
  proof (cases a)
    case (Connect h)
    with Pair ok connect_client [of h c w] show ?thesis by (auto simp: observers_ok_def)
  next
    case (SendMessage h ch m)
    with Pair ok sendMessage_client [of P h ch m c w] show ?thesis
      by (auto simp: observers_ok_def)
  next
    case (OnMessage cb)
    with Pair ok show ?thesis by (auto simp: observers_ok_def onMessage_def)
  next
    case (EndSession d r)
    with Pair ok endSession_client [of d r c w] show ?thesis by (auto simp: observers_ok_def)
  next
    case (ReadSettles r rd)
    with Pair ok resume_client [of P r rd c w] show ?thesis by (auto simp: observers_ok_def)
  qed
qed

lemma run_observers_ok: "observers_ok (fst s) \<Longrightarrow> observers_ok (fst (run P calls s))"
  by (induction calls arbitrary: s) (simp_all add: step_observers_ok)

lemma for_callbacks_callable:
  "list_all is_function cbs \<Longrightarrow> fst (for_callbacks cbs n w) \<noteq> Some NotAFunction"
  by (induction cbs n w rule: for_callbacks.induct) (auto simp: Let_def split: outcome.splits)

text \<open>
  C10: \<^verbatim>\<open>onMessage\<close> with an argument that is not a function raises nothing and leaves the
  client, and so its observer list, unchanged. Hence, after any sequence of calls on the
  instance and of reads settling, every element of the observer list is a function, and
  a dispatch from that client never ends in the TypeError of calling a non-function.
\<close>

theorem onMessage_registers_functions_only:
  "(\<not> is_function a \<longrightarrow> onMessage a c = c)
   \<and> list_all is_function (messageCallbacks (fst (run P calls (constructor rnd, new_world))))
   \<and> fst (notifyCallbacks (fst (run P calls (constructor rnd, new_world))) n w) \<noteq>
       Some NotAFunction"
proof -
  have "observers_ok (fst (run P calls (constructor rnd, new_world)))"
    by (rule run_observers_ok) (simp add: observers_ok_def constructor_def)
  then show ?thesis
    by (simp add: observers_ok_def onMessage_def notifyCallbacks_def for_callbacks_callable)
qed

theorem onMessage_registers_functions_only_witness:
  "\<not> is_function (NonFunction (Some (JString ''callback'')))
   \<and> onMessage (NonFunction (Some (JString ''callback''))) (constructor ''a1b2'') =
       constructor ''a1b2''
   \<and> list_all is_function (messageCallbacks (fst (run sample_platform
        [OnMessage (NonFunction (Some (JString ''callback''))), OnMessage (Function 0 quiet)]
        (constructor ''a1b2'', new_world))))"
  using onMessage_registers_functions_only
    [where a = "NonFunction (Some (JString ''callback''))" and c = "constructor ''a1b2''"
       and P = sample_platform and rnd = "''a1b2''"
       and calls = "[OnMessage (NonFunction (Some (JString ''callback''))),
                     OnMessage (Function 0 quiet)]"
       and n = "Update None" and w = new_world]
  by (simp add: onMessage_def constructor_def)

subsection \<open>C4: chunk boundaries\<close>

lemma decode_append:
  "decode h d (a @ b) =
     (case decode h d a of (d1, t1) \<Rightarrow> case decode h d1 b of (d2, t2) \<Rightarrow> (d2, t1 @ t2))"
  by (induction a arbitrary: d) (auto split: prod.splits)

lemma split_nl_not_Nil [simp]: "split_nl s \<noteq> []"
  by (induction s) (auto split: list.splits)

lemma split_nl_append:
  "split_nl (a @ b) = butlast (split_nl a) @ split_nl (last (split_nl a) @ b)"
proof (induction a)
  case Nil
  show ?case by simp
next
  case (Cons x a)
  show ?case
  proof (cases "split_nl a")
    case Nil
    then show ?thesis by simp
  next
    case (Cons l ls)
    with Cons.IH show ?thesis
      by (cases ls) (auto split: list.splits)
  qed
qed

lemma split_nl_no_newline: "CHR 0x0A \<notin> set r \<Longrightarrow> split_nl r = [r]"
  by (induction r) auto

lemma split_nl_line: "CHR 0x0A \<notin> set l \<Longrightarrow> split_nl (l @ CHR 0x0A # s) = l # split_nl s"
  by (induction l) auto

lemma split_nl_lines:
  "\<forall>l \<in> set ls. CHR 0x0A \<notin> set l \<Longrightarrow> CHR 0x0A \<notin> set r \<Longrightarrow>
   split_nl (concat (map (\<lambda>l. l @ [CHR 0x0A]) ls) @ r) = ls @ [r]"
  by (induction ls) (simp_all add: split_nl_no_newline split_nl_line)

lemma process_lines_append:
  "process_lines P c (xs @ ys) s = process_lines P c ys (process_lines P c xs s)"
  by (induction xs arbitrary: s) simp_all

lemma pop_split_nl:
  "pop (split_nl s) = (Some (last (split_nl s)), butlast (split_nl s))"
  by (simp add: pop_def)

lemma process_chunk_eq:
  "process_chunk P c val (k, w) =
     (let dt = decode (decode_byte P) (decoder k) val;
          pieces = split_nl (receivedText k @ snd dt);
          r = process_lines P c (butlast pieces) (toolCalls k, w)
      in (k\<lparr>decoder := fst dt, receivedText := last pieces, toolCalls := fst r\<rparr>, snd r))"
  by (simp add: process_chunk_def pop_split_nl Let_def split: prod.splits)

lemma process_chunk_append:
  "process_chunk P c (a @ b) s = process_chunk P c b (process_chunk P c a s)"
proof (cases s)
  case (Pair k w)
  obtain d1 t1 where a: "decode (decode_byte P) (decoder k) a = (d1, t1)" by force
  obtain d2 t2 where b: "decode (decode_byte P) d1 b = (d2, t2)" by force
  have ab: "decode (decode_byte P) (decoder k) (a @ b) = (d2, t1 @ t2)"
    by (simp add: decode_append a b)
  have sp: "split_nl (receivedText k @ t1 @ t2) =
      butlast (split_nl (receivedText k @ t1)) @
      split_nl (last (split_nl (receivedText k @ t1)) @ t2)"
    using split_nl_append [of "receivedText k @ t1" t2] by simp
  show ?thesis
    unfolding Pair
    by (simp add: process_chunk_eq Let_def a b ab sp butlast_append process_lines_append)
qed

lemma processStream_chunks:
  "chunks \<noteq> [] \<Longrightarrow>
   processStream P c (map Chunk chunks @ rest) s =
   processStream P c rest (process_chunk P c (concat chunks) s)"
proof (induction chunks arbitrary: s rule: list_nonempty_induct)
  case (single x)
  show ?case by simp
next
  case (cons x xs)
  then show ?case by (simp add: process_chunk_append)
qed

lemma process_chunk_empty:
  "CHR 0x0A \<notin> set (receivedText k) \<Longrightarrow> process_chunk P c [] (k, w) = (k, w)"
  by (simp add: process_chunk_eq split_nl_no_newline)

text \<open>
  C4: for every sequence of chunks read from the body of one exchange, and whatever is read
  after them, \<^verbatim>\<open>processStream\<close> ends in the same state (the same observer invocations in
  the same order, console, tool calls, buffered text and decoder state) as when the same
  bytes are read as one chunk. And when the text decoded from the chunks consists of the
  complete lines \<open>ls\<close>, each ended by a line feed, followed by a piece \<open>r\<close> without a line
  feed, exactly the lines \<open>ls\<close> have gone through the line loop, and \<open>r\<close> is kept in
  \<^verbatim>\<open>receivedText\<close>, unparsed, in front of the text of the next chunk.
\<close>

theorem chunk_boundary_invariance:
  "processStream P c (map Chunk chunks @ rest) (new_consumer P, w) =
   processStream P c (Chunk (concat chunks) # rest) (new_consumer P, w)
   \<and> (decode (decode_byte P) (decoder_init P) (concat chunks) =
          (d, concat (map (\<lambda>l. l @ [CHR 0x0A]) ls) @ r) \<and>
      (\<forall>l \<in> set ls. CHR 0x0A \<notin> set l) \<and> CHR 0x0A \<notin> set r \<longrightarrow>
      processStream P c (map Chunk chunks) (new_consumer P, w) =
        (Waiting,
         \<lparr>decoder = d, receivedText = r, toolCalls = fst (process_lines P c ls ([], w))\<rparr>,
         snd (process_lines P c ls ([], w))))"
proof (intro conjI impI)
  show inv: "processStream P c (map Chunk chunks @ rest) (new_consumer P, w) =
   processStream P c (Chunk (concat chunks) # rest) (new_consumer P, w)" for rest
  proof (cases "chunks = []")
    case True
    then show ?thesis by (simp add: process_chunk_empty new_consumer_def)
  next
    case False
    then show ?thesis by (simp add: processStream_chunks)
  qed
  assume h: "decode (decode_byte P) (decoder_init P) (concat chunks) =
          (d, concat (map (\<lambda>l. l @ [CHR 0x0A]) ls) @ r) \<and>
      (\<forall>l \<in> set ls. CHR 0x0A \<notin> set l) \<and> CHR 0x0A \<notin> set r"
  then have sp: "split_nl (concat (map (\<lambda>l. l @ [CHR 0x0A]) ls) @ r) = ls @ [r]"
    by (simp add: split_nl_lines)
  show "processStream P c (map Chunk chunks) (new_consumer P, w) =
        (Waiting,
         \<lparr>decoder = d, receivedText = r, toolCalls = fst (process_lines P c ls ([], w))\<rparr>,
         snd (process_lines P c ls ([], w)))"
    using inv [of "[]"] h sp
    by (simp add: process_chunk_eq new_consumer_def Let_def)
qed

theorem chunk_boundary_invariance_witness:
  "decode (decode_byte sample_platform) (decoder_init sample_platform)
      (concat [bytes first_chunk, bytes second_chunk]) =
     ((), concat (map (\<lambda>l. l @ [CHR 0x0A]) [content_line]) @ partial_line)
   \<and> CHR 0x0A \<notin> set content_line \<and> CHR 0x0A \<notin> set partial_line
   \<and> processStream sample_platform observed_client
        [Chunk (bytes first_chunk), Chunk (bytes second_chunk)]
        (new_consumer sample_platform, new_world) =
      (Waiting,
       \<lparr>decoder = (), receivedText = partial_line, toolCalls = []\<rparr>,
       \<lparr>requests = [], console = [], invocations = [(0, Update (Some (JString ''Hi'')))],
        closedHandles = [], consumers = []\<rparr>)"
proof -
  have h1: "decode (decode_byte sample_platform) (decoder_init sample_platform)
      (concat [bytes first_chunk, bytes second_chunk]) =
     ((), concat (map (\<lambda>l. l @ [CHR 0x0A]) [content_line]) @ partial_line)"
    by code_simp
  have h2: "CHR 0x0A \<notin> set content_line"
    by (simp add: content_line_def)
  have h3: "CHR 0x0A \<notin> set partial_line"
    by (simp add: partial_line_def)
  have e: "process_lines sample_platform observed_client [content_line] ([], new_world) =
      ([], \<lparr>requests = [], console = [], invocations = [(0, Update (Some (JString ''Hi'')))],
            closedHandles = [], consumers = []\<rparr>)"
    by code_simp
  have "(decode (decode_byte sample_platform) (decoder_init sample_platform)
      (concat [bytes first_chunk, bytes second_chunk]) =
     ((), concat (map (\<lambda>l. l @ [CHR 0x0A]) [content_line]) @ partial_line)
     \<and> (\<forall>l \<in> set [content_line]. CHR 0x0A \<notin> set l)
     \<and> CHR 0x0A \<notin> set partial_line)
    \<longrightarrow>
    processStream sample_platform observed_client
      (map Chunk [bytes first_chunk, bytes second_chunk])
      (new_consumer sample_platform, new_world) =
    (Waiting,
     \<lparr>decoder = (), receivedText = partial_line,
      toolCalls = fst (process_lines sample_platform observed_client [content_line] ([], new_world))\<rparr>,
     snd (process_lines sample_platform observed_client [content_line] ([], new_world)))"
    by (rule conjunct2
      [OF chunk_boundary_invariance
        [where P = sample_platform and c = observed_client and w = new_world and d = "()"
           and ls = "[content_line]" and rest = "[]"
           and chunks = "[bytes first_chunk, bytes second_chunk]" and r = partial_line]])
  with h1 h2 h3 have "processStream sample_platform observed_client
      (map Chunk [bytes first_chunk, bytes second_chunk])
      (new_consumer sample_platform, new_world) =
    (Waiting,
     \<lparr>decoder = (), receivedText = partial_line,
      toolCalls = fst (process_lines sample_platform observed_client [content_line] ([], new_world))\<rparr>,
     snd (process_lines sample_platform observed_client [content_line] ([], new_world)))"
    by (simp only: list.set ball_simps simp_thms)
  then have "processStream sample_platform observed_client
        [Chunk (bytes first_chunk), Chunk (bytes second_chunk)]
        (new_consumer sample_platform, new_world) =
      (Waiting,
       \<lparr>decoder = (), receivedText = partial_line, toolCalls = []\<rparr>,
       \<lparr>requests = [], console = [], invocations = [(0, Update (Some (JString ''Hi'')))],
        closedHandles = [], consumers = []\<rparr>)"
    by (simp only: e fst_conv snd_conv list.map)
  with h1 h2 h3 show ?thesis by (intro conjI)
qed

subsection \<open>C5 and C9: the tool calls of the final notification\<close>

lemma records_Cons:
  "records P (l # ls) =
     (if trim l = [] then [] else case JSON_parse P l of Inl e \<Rightarrow> [] | Inr ev \<Rightarrow> [ev]) @
     records P ls"
  by (auto simp: records_def split: sum.splits)

lemma records_append: "records P (xs @ ys) = records P xs @ records P ys"
  by (simp add: records_def)

lemma tool_call_records_append:
  "tool_call_records P (xs @ ys) = tool_call_records P xs @ tool_call_records P ys"
  by (simp add: tool_call_records_def records_append)

lemma toolCalls_dispatch:
  "dispatch c ev (tcs, w) = (r, t1, w1) \<Longrightarrow>
   t1 = (if has_type ''tool_call'' ev
         then tcs @ [\<lparr>tool = field ev ''tool'', arguments = field ev ''arguments''\<rparr>] else tcs)"
  by (auto simp: dispatch_def has_type_def Let_def split: prod.splits if_splits)

lemma toolCalls_process_line:
  "fst (process_line P c l (tcs, w)) = tcs @ tool_call_records P [l]"
  by (auto simp: process_line_def tool_call_records_def records_Cons records_def
      split: sum.splits prod.splits option.splits dest!: toolCalls_dispatch)

lemma toolCalls_process_lines:
  "fst (process_lines P c ls (tcs, w)) = tcs @ tool_call_records P ls"
proof (induction ls arbitrary: tcs w)
  case Nil
  show ?case by (simp add: tool_call_records_def records_def)
next
  case (Cons l ls)
  obtain t1 w1 where s: "process_line P c l (tcs, w) = (t1, w1)" by force
  from toolCalls_process_line [of P c l tcs w] s have "t1 = tcs @ tool_call_records P [l]"
    by simp
  with Cons.IH [of t1 w1] s show ?case
    using tool_call_records_append [of P "[l]" ls] by simp
qed

lemma invocations_log: "invocations (log e w) = invocations w"
  by (simp add: log_def)

lemma final_record:
  assumes "trim l \<noteq> []" and "JSON_parse P l = Inr ev" and "has_type ''final'' ev"
  shows "fst (process_line P c l (tcs, w)) = tcs"
    and "invocations (snd (process_line P c l (tcs, w))) =
         invocations (snd (notifyCallbacks c (Final (field ev ''content'') tcs) w))"
  using assms
  by (auto simp: process_line_def dispatch_def has_type_def Let_def invocations_log
      split: prod.splits option.splits)

text \<open>
  C5: in one exchange, whose \<^verbatim>\<open>toolCalls\<close> starts empty, let the lines \<open>pre\<close> have gone
  through the line loop and let the next line be a \<^verbatim>\<open>final\<close> record. The observers are
  then invoked with the notification \<^verbatim>\<open>final\<close> that carries the record's content and, as
  its \<^verbatim>\<open>toolCalls\<close>, exactly the \<^verbatim>\<open>tool_call\<close> records among \<open>pre\<close>, in their order; this
  list is empty when no record of \<open>pre\<close> is a \<^verbatim>\<open>tool_call\<close>.
\<close>

theorem final_carries_observed_tool_calls:
  assumes "trim l \<noteq> []" and "JSON_parse P l = Inr ev" and "has_type ''final'' ev"
  shows "invocations (snd (process_line P c l
            (process_lines P c pre (toolCalls (new_consumer P), w)))) =
         invocations (snd (notifyCallbacks c
            (Final (field ev ''content'') (tool_call_records P pre))
            (snd (process_lines P c pre (toolCalls (new_consumer P), w)))))
       \<and> ((\<forall>r \<in> set (records P pre). \<not> has_type ''tool_call'' r) \<longrightarrow>
            tool_call_records P pre = [])"
proof -
  obtain t1 w1 where s: "process_lines P c pre (toolCalls (new_consumer P), w) = (t1, w1)"
    by force
  from toolCalls_process_lines [of P c pre "[]" w] s have t1: "t1 = tool_call_records P pre"
    by (simp add: new_consumer_def)
  show ?thesis
    unfolding s using final_record(2) [OF assms, of c t1 w1] t1
    by (simp add: tool_call_records_def)
qed

theorem final_carries_observed_tool_calls_witness:
  "trim final_line \<noteq> []
   \<and> JSON_parse sample_platform final_line =
       Inr (JObject [(''type'', JString ''final''), (''content'', JString ''Hi there'')])
   \<and> has_type ''final'' (JObject [(''type'', JString ''final''), (''content'', JString ''Hi there'')])
   \<and> invocations (snd (process_line sample_platform observed_client final_line
        (process_lines sample_platform observed_client [content_line, tool_call_line]
           (toolCalls (new_consumer sample_platform), new_world)))) =
      [(0, Update (Some (JString ''Hi''))),
       (0, ToolCall (Some (JString ''search'')) (Some (JObject [(''q'', JString ''x'')]))),
       (0, Final (Some (JString ''Hi there'')) [search_call])]"
proof -
  have h1: "trim final_line \<noteq> []"
    by code_simp
  have h2: "JSON_parse sample_platform final_line =
       Inr (JObject [(''type'', JString ''final''), (''content'', JString ''Hi there'')])"
    by code_simp
  have h3: "has_type ''final''
       (JObject [(''type'', JString ''final''), (''content'', JString ''Hi there'')])"
    by (simp add: has_type_def)
  have t: "invocations (snd (process_line sample_platform observed_client final_line
        (process_lines sample_platform observed_client [content_line, tool_call_line]
           (toolCalls (new_consumer sample_platform), new_world)))) =
      invocations (snd (notifyCallbacks observed_client
        (Final (field (JObject [(''type'', JString ''final''), (''content'', JString ''Hi there'')])
                  ''content'')
           (tool_call_records sample_platform [content_line, tool_call_line]))
        (snd (process_lines sample_platform observed_client [content_line, tool_call_line]
           (toolCalls (new_consumer sample_platform), new_world)))))"
    by (rule conjunct1
      [OF final_carries_observed_tool_calls
        [OF h1 h2 h3, where c = observed_client and pre = "[content_line, tool_call_line]"
           and w = new_world]])
  have e: "invocations (snd (notifyCallbacks observed_client
        (Final (field (JObject [(''type'', JString ''final''), (''content'', JString ''Hi there'')])
                  ''content'')
           (tool_call_records sample_platform [content_line, tool_call_line]))
        (snd (process_lines sample_platform observed_client [content_line, tool_call_line]
           (toolCalls (new_consumer sample_platform), new_world))))) =
      [(0, Update (Some (JString ''Hi''))),
       (0, ToolCall (Some (JString ''search'')) (Some (JObject [(''q'', JString ''x'')]))),
       (0, Final (Some (JString ''Hi there'')) [search_call])]"
    by code_simp
  from t e have "invocations (snd (process_line sample_platform observed_client final_line
        (process_lines sample_platform observed_client [content_line, tool_call_line]
           (toolCalls (new_consumer sample_platform), new_world)))) =
      [(0, Update (Some (JString ''Hi''))),
       (0, ToolCall (Some (JString ''search'')) (Some (JObject [(''q'', JString ''x'')]))),
       (0, Final (Some (JString ''Hi there'')) [search_call])]"
    by (rule trans)
  with h1 h2 h3 show ?thesis by (intro conjI)
qed

text \<open>
  C9: a \<^verbatim>\<open>final\<close> record leaves the \<^verbatim>\<open>toolCalls\<close> of its exchange as they are. So when the
  lines \<open>a\<close>, a first \<^verbatim>\<open>final\<close> record and the lines \<open>b\<close> have gone through the line loop of
  one exchange, a second \<^verbatim>\<open>final\<close> record is dispatched with the \<^verbatim>\<open>tool_call\<close> records of
  \<open>a\<close>, which precede the first \<^verbatim>\<open>final\<close>, followed by those of \<open>b\<close>.
\<close>

theorem later_final_carries_all_tool_calls:
  assumes "trim l1 \<noteq> []" and "JSON_parse P l1 = Inr ev1" and "has_type ''final'' ev1"
      and "trim l2 \<noteq> []" and "JSON_parse P l2 = Inr ev2" and "has_type ''final'' ev2"
  shows "fst (process_line P c l1 (tcs, w)) = tcs
       \<and> invocations (snd (process_line P c l2
            (process_lines P c (a @ l1 # b) (toolCalls (new_consumer P), w)))) =
         invocations (snd (notifyCallbacks c
            (Final (field ev2 ''content'') (tool_call_records P a @ tool_call_records P b))
            (snd (process_lines P c (a @ l1 # b) (toolCalls (new_consumer P), w)))))"
proof -
  obtain t1 w1 where
    s: "process_lines P c (a @ l1 # b) (toolCalls (new_consumer P), w) = (t1, w1)"
    by force
  have "tool_call_records P [l1] = []"
    using assms(1-3) by (auto simp: tool_call_records_def records_def has_type_def)
  then have "tool_call_records P (a @ l1 # b) = tool_call_records P a @ tool_call_records P b"
    using tool_call_records_append [of P a "[l1] @ b"] tool_call_records_append [of P "[l1]" b]
    by simp
  with toolCalls_process_lines [of P c "a @ l1 # b" "[]" w] s
  have t1: "t1 = tool_call_records P a @ tool_call_records P b"
    by (simp add: new_consumer_def)
  show ?thesis
    unfolding s
    using final_record(1) [OF assms(1-3), of c tcs w] final_record(2) [OF assms(4-6), of c t1 w1] t1
    by simp
qed

theorem later_final_carries_all_tool_calls_witness:
  "trim final_line \<noteq> []
   \<and> JSON_parse sample_platform final_line =
       Inr (JObject [(''type'', JString ''final''), (''content'', JString ''Hi there'')])
   \<and> has_type ''final'' (JObject [(''type'', JString ''final''), (''content'', JString ''Hi there'')])
   \<and> invocations (snd (process_line sample_platform observed_client final_line
        (process_lines sample_platform observed_client
           ([tool_call_line] @ final_line # [content_line])
           (toolCalls (new_consumer sample_platform), new_world)))) =
      [(0, ToolCall (Some (JString ''search'')) (Some (JObject [(''q'', JString ''x'')]))),
       (0, Final (Some (JString ''Hi there'')) [search_call]),
       (0, Update (Some (JString ''Hi''))),
       (0, Final (Some (JString ''Hi there'')) [search_call])]"
proof -
  have h1: "trim final_line \<noteq> []"
    by code_simp
  have h2: "JSON_parse sample_platform final_line =
       Inr (JObject [(''type'', JString ''final''), (''content'', JString ''Hi there'')])"
    by code_simp
  have h3: "has_type ''final''
       (JObject [(''type'', JString ''final''), (''content'', JString ''Hi there'')])"
    by (simp add: has_type_def)
  have t: "invocations (snd (process_line sample_platform observed_client final_line
        (process_lines sample_platform observed_client
           ([tool_call_line] @ final_line # [content_line])
           (toolCalls (new_consumer sample_platform), new_world)))) =
      invocations (snd (notifyCallbacks observed_client
        (Final (field (JObject [(''type'', JString ''final''), (''content'', JString ''Hi there'')])
                  ''content'')
           (tool_call_records sample_platform [tool_call_line] @
            tool_call_records sample_platform [content_line]))
        (snd (process_lines sample_platform observed_client
           ([tool_call_line] @ final_line # [content_line])
           (toolCalls (new_consumer sample_platform), new_world)))))"
    by (rule conjunct2
      [OF later_final_carries_all_tool_calls
        [OF h1 h2 h3 h1 h2 h3, where c = observed_client and a = "[tool_call_line]"
           and b = "[content_line]" and w = new_world and tcs = "[]"]])
  have e: "invocations (snd (notifyCallbacks observed_client
        (Final (field (JObject [(''type'', JString ''final''), (''content'', JString ''Hi there'')])
                  ''content'')
           (tool_call_records sample_platform [tool_call_line] @
            tool_call_records sample_platform [content_line]))
        (snd (process_lines sample_platform observed_client
           ([tool_call_line] @ final_line # [content_line])
           (toolCalls (new_consumer sample_platform), new_world))))) =
      [(0, ToolCall (Some (JString ''search'')) (Some (JObject [(''q'', JString ''x'')]))),
       (0, Final (Some (JString ''Hi there'')) [search_call]),
       (0, Update (Some (JString ''Hi''))),
       (0, Final (Some (JString ''Hi there'')) [search_call])]"
    by code_simp
  from t e have "invocations (snd (process_line sample_platform observed_client final_line
        (process_lines sample_platform observed_client
           ([tool_call_line] @ final_line # [content_line])
           (toolCalls (new_consumer sample_platform), new_world)))) =
      [(0, ToolCall (Some (JString ''search'')) (Some (JObject [(''q'', JString ''x'')]))),
       (0, Final (Some (JString ''Hi there'')) [search_call]),
       (0, Update (Some (JString ''Hi''))),
       (0, Final (Some (JString ''Hi there'')) [search_call])]"
    by (rule trans)
  with h1 h2 h3 show ?thesis by (intro conjI)
qed

subsection \<open>C6: a line that is not valid JSON\<close>

lemma for_callbacks_console:
  "for_callbacks cbs n (w\<lparr>console := k\<rparr>) =
     (fst (for_callbacks cbs n w), (snd (for_callbacks cbs n w))\<lparr>console := k\<rparr>)"
proof (induction cbs arbitrary: w)
  case Nil
  show ?case by simp
next
  case (Cons cb cbs)
  show ?case
  proof (cases cb)
    case (Function i f)
    have swap: "w\<lparr>console := k, invocations := invocations w @ [(i, n)]\<rparr> =
                (w\<lparr>invocations := invocations w @ [(i, n)]\<rparr>)\<lparr>console := k\<rparr>"
      by simp
    show ?thesis
      unfolding Function
      by (cases "f n") (simp_all add: Let_def swap Cons.IH)
  next
    case (NonFunction v)
    then show ?thesis by simp
  qed
qed

lemma dispatch_console:
  "dispatch c ev (tcs, w\<lparr>console := k\<rparr>) =
     (fst (dispatch c ev (tcs, w)), fst (snd (dispatch c ev (tcs, w))),
      (snd (snd (dispatch c ev (tcs, w))))\<lparr>console := k\<rparr>)"
  by (simp add: dispatch_def notifyCallbacks_def for_callbacks_console Let_def split: prod.splits)

lemma silent_process_line:
  "silent (process_line P c l (silent s)) = silent (process_line P c l s)"
  by (cases s)
     (auto simp: silent_def process_line_def dispatch_console log_def
       split: sum.splits prod.splits option.splits)

lemma silent_process_lines:
  "silent (process_lines P c ls (silent s)) = silent (process_lines P c ls s)"
proof (induction ls arbitrary: s)
  case Nil
  show ?case by (simp add: silent_def)
next
  case (Cons l ls)
  have "silent (process_lines P c (l # ls) (silent s)) =
        silent (process_lines P c ls (silent (process_line P c l (silent s))))"
    by (simp add: Cons.IH)
  also have "\<dots> = silent (process_lines P c ls (silent (process_line P c l s)))"
    by (simp only: silent_process_line)
  also have "\<dots> = silent (process_lines P c (l # ls) s)"
    by (simp add: Cons.IH)
  finally show ?case .
qed

lemma processStream_chunks_waiting: "fst (processStream P c (map Chunk chunks) s) = Waiting"
  by (induction chunks arbitrary: s) simp_all

text \<open>
  C6: let \<open>l\<close> be a line that reaches \<^verbatim>\<open>JSON.parse\<close> (it is not blank) and that
  \<^verbatim>\<open>JSON.parse\<close> rejects with \<open>e\<close>. The line loop writes one console line for it, with \<open>e\<close>
  and the line, and changes nothing else. The lines after it are processed as if it were
  not there: with \<open>l\<close> between the lines \<open>pre\<close> and \<open>post\<close>, the tool calls and the observer
  invocations at the end are those of \<open>pre\<close> followed by \<open>post\<close>. And no content of the
  chunks ends the stream task: after any chunks it is waiting for its next read.
\<close>

theorem invalid_json_line_is_skipped:
  assumes "trim l \<noteq> []" and "JSON_parse P l = Inl e"
  shows "process_line P c l (tcs, w) = (tcs, log (ErrorParsingEvent e l) w)
       \<and> fst (process_lines P c (pre @ l # post) s) = fst (process_lines P c (pre @ post) s)
       \<and> invocations (snd (process_lines P c (pre @ l # post) s)) =
         invocations (snd (process_lines P c (pre @ post) s))
       \<and> fst (processStream P c (map Chunk chunks) (k, w)) = Waiting"
proof -
  have line: "process_line P c l (t, v) = (t, log (ErrorParsingEvent e l) v)" for t v
    using assms by (simp add: process_line_def)
  have "silent (process_line P c l x) = silent x" for x
    by (cases x) (simp add: line silent_def log_def)
  then have skip: "silent (process_line P c l (process_lines P c pre s)) =
        silent (process_lines P c pre s)" .
  have "silent (process_lines P c (pre @ l # post) s) =
        silent (process_lines P c post (silent (process_line P c l (process_lines P c pre s))))"
    by (simp add: process_lines_append silent_process_lines)
  also have "\<dots> = silent (process_lines P c post (silent (process_lines P c pre s)))"
    by (simp only: skip)
  also have "\<dots> = silent (process_lines P c (pre @ post) s)"
    by (simp add: process_lines_append silent_process_lines)
  finally have "silent (process_lines P c (pre @ l # post) s) =
      silent (process_lines P c (pre @ post) s)" .
  then have "fst (process_lines P c (pre @ l # post) s) = fst (process_lines P c (pre @ post) s)"
    and "invocations (snd (process_lines P c (pre @ l # post) s)) =
         invocations (snd (process_lines P c (pre @ post) s))"
    by (auto simp: silent_def dest: arg_cong [where f = invocations])
  with line [of tcs w] show ?thesis
    by (simp add: processStream_chunks_waiting)
qed

theorem invalid_json_line_is_skipped_witness:
  "trim broken_line \<noteq> []
   \<and> JSON_parse sample_platform broken_line = Inl (Thrown ''Unexpected end of JSON input'')
   \<and> process_line sample_platform observed_client broken_line ([], new_world) =
       ([], log (ErrorParsingEvent (Thrown ''Unexpected end of JSON input'') broken_line) new_world)
   \<and> invocations (snd (process_lines sample_platform observed_client
        ([content_line] @ broken_line # [final_line]) ([], new_world))) =
      [(0, Update (Some (JString ''Hi''))), (0, Final (Some (JString ''Hi there'')) [])]"
proof -
  have h1: "trim broken_line \<noteq> []"
    by code_simp
  have h2: "JSON_parse sample_platform broken_line =
      Inl (Thrown ''Unexpected end of JSON input'')"
    by code_simp
  note t = invalid_json_line_is_skipped
    [OF h1 h2, where c = observed_client and tcs = "[]" and w = new_world
       and pre = "[content_line]" and post = "[final_line]" and s = "([], new_world)"
       and chunks = "[]" and k = "new_consumer sample_platform"]
  have t1: "process_line sample_platform observed_client broken_line ([], new_world) =
       ([], log (ErrorParsingEvent (Thrown ''Unexpected end of JSON input'') broken_line) new_world)"
    by (rule conjunct1 [OF t])
  have t2: "invocations (snd (process_lines sample_platform observed_client
        ([content_line] @ broken_line # [final_line]) ([], new_world))) =
      invocations (snd (process_lines sample_platform observed_client
        ([content_line] @ [final_line]) ([], new_world)))"
    by (rule conjunct1 [OF conjunct2 [OF conjunct2 [OF t]]])
  have e: "invocations (snd (process_lines sample_platform observed_client
        ([content_line] @ [final_line]) ([], new_world))) =
      [(0, Update (Some (JString ''Hi''))), (0, Final (Some (JString ''Hi there'')) [])]"
    by code_simp
  from t2 e have "invocations (snd (process_lines sample_platform observed_client
        ([content_line] @ broken_line # [final_line]) ([], new_world))) =
      [(0, Update (Some (JString ''Hi''))), (0, Final (Some (JString ''Hi there'')) [])]"
    by (rule trans)
  with h1 h2 t1 show ?thesis by (intro conjI)
qed

subsection \<open>C1: one stream at a time\<close>

lemma closedHandles_dispatch:
  "dispatch c ev (tcs, w) = (r, t1, w1) \<Longrightarrow> closedHandles w1 = closedHandles w"
  by (auto simp: dispatch_def Let_def split: prod.splits if_splits dest!: notifyCallbacks_frame)

lemma closedHandles_process_line:
  "process_line P c l (tcs, w) = (t1, w1) \<Longrightarrow> closedHandles w1 = closedHandles w"
  by (auto simp: process_line_def log_def split: sum.splits prod.splits option.splits if_splits
        dest!: closedHandles_dispatch)

lemma closedHandles_process_lines:
  "process_lines P c ls (tcs, w) = (t1, w1) \<Longrightarrow> closedHandles w1 = closedHandles w"
proof (induction ls arbitrary: tcs w)
  case Nil
  then show ?case by simp
next
  case (Cons l ls)
  obtain t2 w2 where s: "process_line P c l (tcs, w) = (t2, w2)" by force
  with Cons.prems have "process_lines P c ls (t2, w2) = (t1, w1)" by simp
  from Cons.IH [OF this] closedHandles_process_line [OF s] show ?case by simp
qed

lemma closedHandles_process_chunk:
  "process_chunk P c val (k, w) = (k1, w1) \<Longrightarrow> closedHandles w1 = closedHandles w"
  by (auto simp: process_chunk_def Let_def split: prod.splits dest!: closedHandles_process_lines)

lemma closedHandles_resume:
  "closedHandles (snd (resume P reader rd (c, w))) = closedHandles w"
proof (cases rd)
  case (Chunk val)
  then show ?thesis
    by (auto simp: resume_def split: option.splits prod.splits task.splits
        dest!: closedHandles_process_chunk)
next
  case Done
  then show ?thesis by (auto simp: resume_def split: option.splits)
next
  case (ReadFails e)
  then show ?thesis
    by (auto simp: resume_def log_def split: option.splits prod.splits task.splits
        dest!: notifyCallbacks_frame)
qed

lemma never_closes_connect:
  "eventSource c = None \<Longrightarrow>
   eventSource (fst (snd (connect health (c, w)))) = None \<and>
   closedHandles (snd (snd (connect health (c, w)))) = closedHandles w"
  by (cases health) (auto simp: connect_def Let_def fetch_def log_def)

lemma never_closes_exchange:
  "eventSource c = None \<Longrightarrow>
   eventSource (fst (snd (sendMessage_exchange P chat msg (c, w)))) = None \<and>
   closedHandles (snd (snd (sendMessage_exchange P chat msg (c, w)))) = closedHandles w"
  by (cases chat)
     (auto simp: sendMessage_exchange_def sendMessage_try_def Let_def fetch_def log_def
        split: option.splits prod.splits if_splits dest!: notifyCallbacks_frame)

lemma never_closes_sendMessage:
  "eventSource c = None \<Longrightarrow>
   eventSource (fst (snd (sendMessage P health chat msg (c, w)))) = None \<and>
   closedHandles (snd (snd (sendMessage P health chat msg (c, w)))) = closedHandles w"
  using never_closes_connect [of c health w]
  by (cases "connect health (c, w)")
     (auto simp: sendMessage_def never_closes_exchange split: prod.splits)

lemma never_closes_endSession:
  "eventSource c = None \<Longrightarrow>
   eventSource (fst (endSession del rnd (c, w))) = None \<and>
   closedHandles (snd (endSession del rnd (c, w))) = closedHandles w"
  by (cases del) (auto simp: endSession_def Let_def fetch_def log_def)

lemma never_closes_step:
  "eventSource (fst s) = None \<Longrightarrow>
   eventSource (fst (step P a s)) = None \<and>
   closedHandles (snd (step P a s)) = closedHandles (snd s)"
proof (cases s)
  case (Pair c w)
  assume "eventSource (fst s) = None"
  with Pair have n: "eventSource c = None" by simp
  show ?thesis
    unfolding Pair
    using never_closes_connect [OF n] never_closes_sendMessage [OF n]
      never_closes_endSession [OF n] closedHandles_resume [of P _ _ c w]
      resume_client [of P _ _ c w] n
    by (cases a) (simp_all add: onMessage_def)
qed

lemma never_closes_run:
  "eventSource (fst s) = None \<Longrightarrow>
   eventSource (fst (run P calls s)) = None \<and>
   closedHandles (snd (run P calls s)) = closedHandles (snd s)"
  by (induction calls arbitrary: s) (simp_all add: never_closes_step)

text \<open>
  C1 says that \<^verbatim>\<open>sendMessage\<close> closes the previous stream before it starts a new one, so
  that two background readers never both deliver notifications. The code tests
  \<^verbatim>\<open>this.eventSource\<close> and closes it, but nothing ever assigns that field: it is \<^verbatim>\<open>null\<close>
  from the constructor on, and the reader of a response body is kept in a local variable
  only. So no sequence of calls closes any handle. After two successful \<^verbatim>\<open>sendMessage\<close>
  calls the readers 1 and 2 both have a \<^verbatim>\<open>processStream\<close> task waiting, and when a chunk
  then arrives on each, both tasks invoke the observer.
\<close>

theorem previous_stream_is_never_closed:
  "closedHandles (snd (run P calls (constructor rnd, new_world))) = []
   \<and> eventSource (fst (run P calls (constructor rnd, new_world))) = None
   \<and> map fst (consumers (snd (run sample_platform
        [OnMessage (Function 0 quiet), Connect (ok200 None),
         SendMessage (ok200 None) (ok200 (Some 1)) ''first'',
         SendMessage (ok200 None) (ok200 (Some 2)) ''second'']
        (constructor ''a1b2'', new_world)))) = [1, 2]
   \<and> invocations (snd (run sample_platform
        [OnMessage (Function 0 quiet), Connect (ok200 None),
         SendMessage (ok200 None) (ok200 (Some 1)) ''first'',
         SendMessage (ok200 None) (ok200 (Some 2)) ''second'',
         ReadSettles 1 (Chunk (bytes (content_line @ [CHR 0x0A]))),
         ReadSettles 2 (Chunk (bytes (final_line @ [CHR 0x0A])))]
        (constructor ''a1b2'', new_world))) =
       [(0, Update (Some (JString ''Hi''))), (0, Final (Some (JString ''Hi there'')) [])]"
proof (intro conjI)
  show "closedHandles (snd (run P calls (constructor rnd, new_world))) = []"
    using never_closes_run [of "(constructor rnd, new_world)" P calls]
    by (simp add: constructor_def new_world_def)
  show "eventSource (fst (run P calls (constructor rnd, new_world))) = None"
    using never_closes_run [of "(constructor rnd, new_world)" P calls]
    by (simp add: constructor_def)
  show "map fst (consumers (snd (run sample_platform
        [OnMessage (Function 0 quiet), Connect (ok200 None),
         SendMessage (ok200 None) (ok200 (Some 1)) ''first'',
         SendMessage (ok200 None) (ok200 (Some 2)) ''second'']
        (constructor ''a1b2'', new_world)))) = [1, 2]"
    by code_simp
  show "invocations (snd (run sample_platform
        [OnMessage (Function 0 quiet), Connect (ok200 None),
         SendMessage (ok200 None) (ok200 (Some 1)) ''first'',
         SendMessage (ok200 None) (ok200 (Some 2)) ''second'',
         ReadSettles 1 (Chunk (bytes (content_line @ [CHR 0x0A]))),
         ReadSettles 2 (Chunk (bytes (final_line @ [CHR 0x0A])))]
        (constructor ''a1b2'', new_world))) =
       [(0, Update (Some (JString ''Hi''))), (0, Final (Some (JString ''Hi there'')) [])]"
    by code_simp
qed

end
